theory Spec2Isabelle
  imports Complex_Main "HOL-Library.Finite_Map"
begin

section \<open>The Yahoo OAuth 2.0 client: values, files and the session\<close>

text \<open>
  The development follows \<^verbatim>\<open>src/yahoo_oauth.py\<close>. The script keeps two JSON documents on
  disk (the token file and the user-info file) and talks to the provider through one
  \<^verbatim>\<open>OAuth2Session\<close> object of the library requests-oauthlib.

  \<^item> A Python value that \<^verbatim>\<open>json.load\<close> can return is a \<open>json\<close>. \<open>JNull\<close> is Python's
    \<^verbatim>\<open>None\<close>; a number is kept by its value (the floats that are not finite are left
    out); a \<^verbatim>\<open>dict\<close> with string keys is a finite map, whose equality is, like Python's
    \<^verbatim>\<open>==\<close> on dicts, blind to insertion order.
  \<^item> A file is kept as what opening it for reading and \<^verbatim>\<open>json.load\<close> make of it: the
    open is refused, the bytes are not UTF-8, the text is nested beyond the interpreter's
    recursion limit, the text is not JSON, or the text parses to a value. \<^verbatim>\<open>json.dump\<close>
    of a value writes a text that parses back to that value. The two configured paths are
    taken to name files, not directories, in a directory the script may write to.
  \<^item> An exception is a value of \<open>error\<close>; a function that can raise returns a sum,
    \<open>Inl\<close> carrying the exception.
  \<^item> The session is a collaborator outside the script. Its entry points that the script
    uses are parameters (\<open>oauth2_session\<close>); the callback the script registers with it
    (\<^verbatim>\<open>token_updater\<close>) is run by the model where the session runs it.
\<close>

subsection \<open>Python values\<close>

datatype json =
    JNull
  | JBool bool
  | JNum rat
  | JStr string
  | JArr "json list"
  | JObj "(string, json) fmap"

type_synonym obj = "(string, json) fmap"

datatype error =
    FileNotFoundError
  | PermissionError
  | UnicodeDecodeError
  | RecursionError
  | JSONDecodeError
  | AttributeError
  | TypeError
  | KeyError
  | Other string

text \<open>
  \<open>Other name\<close> is an exception of the class \<open>name\<close> raised outside the script's own
  statements (inside the session or the HTTP stack).
\<close>

text \<open>Truth value testing, as \<^verbatim>\<open>x or y\<close> applies it.\<close>

fun truthy :: "json \<Rightarrow> bool" where
  "truthy JNull = False"
| "truthy (JBool b) = b"
| "truthy (JNum n) = (n \<noteq> 0)"
| "truthy (JStr s) = (s \<noteq> [])"
| "truthy (JArr xs) = (xs \<noteq> [])"
| "truthy (JObj m) = (m \<noteq> fmempty)"

definition py_or :: "json \<Rightarrow> json \<Rightarrow> json" where
  "py_or x y = (if truthy x then x else y)"

text \<open>
  \<^verbatim>\<open>x[key]\<close> with a string key: only a dict can be subscripted by a string, and a
  missing key is a \<^verbatim>\<open>KeyError\<close>.
\<close>

fun subscript :: "json \<Rightarrow> string \<Rightarrow> error + json" where
  "subscript (JObj m) key = (case fmlookup m key of None \<Rightarrow> Inl KeyError | Some v \<Rightarrow> Inr v)"
| "subscript other key = Inl TypeError"

subsection \<open>The files\<close>

text \<open>
  What a file that exists holds, by what reading it does:
  \<^item> \<open>Unreadable\<close>: \<^verbatim>\<open>open(file_name, "r")\<close> raises \<^verbatim>\<open>PermissionError\<close>;
  \<^item> \<open>Undecodable\<close>: the bytes are not UTF-8, and reading them raises
    \<^verbatim>\<open>UnicodeDecodeError\<close>;
  \<^item> \<open>Overnested\<close>: the text opens more brackets than the interpreter's recursion limit
    allows, and the parser raises \<^verbatim>\<open>RecursionError\<close>;
  \<^item> \<open>Malformed\<close>: the parser rejects the text with \<^verbatim>\<open>JSONDecodeError\<close>;
  \<^item> \<open>Parsed v\<close>: the text is JSON and \<^verbatim>\<open>json.load\<close> returns \<open>v\<close>.
\<close>

datatype content = Unreadable | Undecodable | Overnested | Malformed | Parsed json

datatype effect = Dump string json | Remove string

text \<open>
  The world of the script: the files by name, and the list of the changes made to them so
  far (\<open>Dump name v\<close>: \<^verbatim>\<open>json.dump\<close> wrote \<open>v\<close> to \<open>name\<close>; \<open>Remove name\<close>:
  \<^verbatim>\<open>os.remove\<close> removed \<open>name\<close>), oldest first.
\<close>

record world =
  files :: "string \<rightharpoonup> content"
  trace :: "effect list"

definition empty_store :: world where
  "empty_store = \<lparr>files = Map.empty, trace = []\<rparr>"

text \<open>The body of the \<^verbatim>\<open>try\<close> in \<^verbatim>\<open>__read_file__\<close>: open the file and \<^verbatim>\<open>json.load\<close> it.\<close>

definition json_load :: "string \<Rightarrow> world \<Rightarrow> error + json" where
  "json_load file_name w =
     (case files w file_name of
        None \<Rightarrow> Inl FileNotFoundError
      | Some Unreadable \<Rightarrow> Inl PermissionError
      | Some Undecodable \<Rightarrow> Inl UnicodeDecodeError
      | Some Overnested \<Rightarrow> Inl RecursionError
      | Some Malformed \<Rightarrow> Inl JSONDecodeError
      | Some (Parsed token) \<Rightarrow> Inr token)"

text \<open>
  \<^verbatim>\<open>__read_file__\<close>: the two exceptions of the \<^verbatim>\<open>except\<close> clause become \<^verbatim>\<open>None\<close>, and
  any other exception leaves the function.
\<close>

definition read_file :: "string \<Rightarrow> world \<Rightarrow> error + json" where
  "read_file file_name w =
     (case json_load file_name w of
        Inr token \<Rightarrow> Inr token
      | Inl FileNotFoundError \<Rightarrow> Inr JNull
      | Inl JSONDecodeError \<Rightarrow> Inr JNull
      | Inl e \<Rightarrow> Inl e)"

text \<open>
  \<^verbatim>\<open>__write_file__\<close>. An exception of \<^verbatim>\<open>__read_file__\<close> leaves the function.
  \<^verbatim>\<open>existing_data.update(data)\<close> needs \<open>existing_data\<close> to be a dict: any other truthy
  value has no \<^verbatim>\<open>update\<close> and raises \<^verbatim>\<open>AttributeError\<close>. Both happen before the file is
  opened for writing.
\<close>

definition existing_data :: "string \<Rightarrow> world \<Rightarrow> error + json" where
  "existing_data file_name w =
     (case read_file file_name w of
        Inl e \<Rightarrow> Inl e
      | Inr v \<Rightarrow> Inr (py_or v (JObj fmempty)))"

definition write_file :: "obj \<Rightarrow> string \<Rightarrow> world \<Rightarrow> error + world" where
  "write_file data file_name w =
     (case existing_data file_name w of
        Inl e \<Rightarrow> Inl e
      | Inr (JObj existing) \<Rightarrow>
          Inr \<lparr>files = (files w)(file_name \<mapsto> Parsed (JObj (existing ++\<^sub>f data))),
               trace = trace w @ [Dump file_name (JObj (existing ++\<^sub>f data))]\<rparr>
      | Inr other \<Rightarrow> Inl AttributeError)"

text \<open>
  \<^verbatim>\<open>__del_file__\<close>: \<^verbatim>\<open>os.remove\<close>, with every \<^verbatim>\<open>OSError\<close> passed over. Removing a file
  asks nothing of its content.
\<close>

definition os_remove :: "string \<Rightarrow> world \<Rightarrow> error + world" where
  "os_remove file_name w =
     (case files w file_name of
        None \<Rightarrow> Inl FileNotFoundError
      | Some c \<Rightarrow> Inr \<lparr>files = (files w)(file_name := None),
                       trace = trace w @ [Remove file_name]\<rparr>)"

definition del_file :: "string \<Rightarrow> world \<Rightarrow> world" where
  "del_file file_name w =
     (case os_remove file_name w of
        Inl e \<Rightarrow> w
      | Inr w' \<Rightarrow> w')"

text \<open>One step after another, the second skipped when the first raises.\<close>

definition and_then :: "error + 'a \<Rightarrow> ('a \<Rightarrow> error + 'b) \<Rightarrow> error + 'b" where
  "and_then r f = (case r of Inl e \<Rightarrow> Inl e | Inr x \<Rightarrow> f x)"

subsection \<open>Configuration and the session\<close>

text \<open>
  The five constants the script reads from the process environment when it is loaded.
\<close>

record config =
  CLIENT_ID :: string
  CLIENT_SECRET :: string
  REDIRECT_URI :: string
  TOKEN_FILE :: string
  INFO_FILE :: string

definition API_BASE_URL :: string where
  "API_BASE_URL = ''https://api.login.yahoo.com''"

text \<open>
  \<^verbatim>\<open>urljoin(API_BASE_URL, path)\<close>, for the absolute paths the script joins to its base
  (a base without a path of its own): the path is appended.
\<close>

definition urljoin :: "string \<Rightarrow> string \<Rightarrow> string" where
  "urljoin base path = base @ path"

text \<open>
  A response of the HTTP stack: its status and what \<^verbatim>\<open>response.json()\<close> does with the
  body, which is to raise or to return the parsed body. The user-info endpoint answers
  with a JSON object, so the parsed body is a dict.
\<close>

record response =
  status_code :: int
  json_body :: "error + obj"

text \<open>
  The arguments of one \<^verbatim>\<open>oauth.request(...)\<close>. \<open>token\<close> is the value the caller has just
  assigned to \<^verbatim>\<open>oauth.token\<close>, when it has assigned one.
\<close>

record request_args =
  http_method :: string
  url :: string
  token :: "json option"
  client :: "(string \<times> string) option"
  auth :: "(string \<times> string) option"
  data :: "obj option"

text \<open>
  What one \<^verbatim>\<open>oauth.request(...)\<close> does, seen from the script. The session was built with
  \<^verbatim>\<open>auto_refresh_url\<close> and \<^verbatim>\<open>token_updater\<close>: when it finds its token expired it
  refreshes it once, hands the new token to \<^verbatim>\<open>token_updater\<close>, and then sends the request.
  \<^item> \<open>Raises e\<close>: the call raises without having refreshed (also when the refresh itself is
    rejected);
  \<^item> \<open>Responds r\<close>: no refresh, the provider's response is \<open>r\<close>;
  \<^item> \<open>Refreshes new_token outcome\<close>: the session obtained \<open>new_token\<close>, calls
    \<^verbatim>\<open>token_updater(new_token)\<close>, and, once that returns, ends as \<open>outcome\<close> says.
\<close>

datatype request_result =
    Raises error
  | Responds response
  | Refreshes obj "error + response"

text \<open>
  The session object \<^verbatim>\<open>oauth\<close>: \<^verbatim>\<open>fetch_token(token_url, code, client_secret)\<close> raises or
  returns the token (a dict), \<^verbatim>\<open>request\<close> behaves as above, and \<open>token_setter v\<close> is the
  exception, if any, that assigning the string, list or dict \<open>v\<close> to \<^verbatim>\<open>oauth.token\<close> ends
  with.
\<close>

record oauth2_session =
  fetch_token :: "string \<Rightarrow> string \<Rightarrow> string \<Rightarrow> error + obj"
  request :: "request_args \<Rightarrow> request_result"
  token_setter :: "json \<Rightarrow> error option"


subsection \<open>The operations\<close>

text \<open>\<^verbatim>\<open>__refresh_access_token__\<close>, the \<^verbatim>\<open>token_updater\<close> of the session.\<close>

definition refresh_access_token :: "config \<Rightarrow> obj \<Rightarrow> world \<Rightarrow> error + obj \<times> world" where
  "refresh_access_token cfg new_token w =
     (case write_file new_token (TOKEN_FILE cfg) w of
        Inl e \<Rightarrow> Inl e
      | Inr w' \<Rightarrow> Inr (new_token, w'))"

text \<open>
  \<^verbatim>\<open>oauth.request(...)\<close> together with the callback: an exception of \<^verbatim>\<open>token_updater\<close>
  leaves the call before the request is sent.
\<close>

definition oauth_request ::
  "config \<Rightarrow> oauth2_session \<Rightarrow> request_args \<Rightarrow> world \<Rightarrow> (error + response) \<times> world" where
  "oauth_request cfg oauth args w =
     (case request oauth args of
        Raises e \<Rightarrow> (Inl e, w)
      | Responds r \<Rightarrow> (Inr r, w)
      | Refreshes new_token outcome \<Rightarrow>
          (case refresh_access_token cfg new_token w of
             Inl e \<Rightarrow> (Inl e, w)
           | Inr (updated, w') \<Rightarrow> (outcome, w')))"

definition exchange_authorization_code ::
  "config \<Rightarrow> oauth2_session \<Rightarrow> string \<Rightarrow> world \<Rightarrow> (error + obj) \<times> world" where
  "exchange_authorization_code cfg oauth code w =
     (case fetch_token oauth (urljoin API_BASE_URL ''/oauth2/get_token'') code (CLIENT_SECRET cfg) of
        Inl e \<Rightarrow> (Inl e, w)
      | Inr tok \<Rightarrow>
          (case write_file tok (TOKEN_FILE cfg) w of
             Inl e \<Rightarrow> (Inl e, w)
           | Inr w' \<Rightarrow> (Inr tok, w')))"

definition userinfo_request :: "config \<Rightarrow> json \<Rightarrow> request_args" where
  "userinfo_request cfg tok =
     \<lparr>http_method = ''POST'',
      url = urljoin API_BASE_URL ''/openid/v1/userinfo'',
      token = Some tok,
      client = Some (CLIENT_ID cfg, CLIENT_SECRET cfg),
      auth = None,
      data = None\<rparr>"


definition revoke_request :: "config \<Rightarrow> json \<Rightarrow> request_args" where
  "revoke_request cfg refresh_token =
     \<lparr>http_method = ''POST'',
      url = urljoin API_BASE_URL ''/oauth2/revoke'',
      token = None,
      client = None,
      auth = Some (CLIENT_ID cfg, CLIENT_SECRET cfg),
      data = Some (fmap_of_list [(''token'', refresh_token),
                                 (''token_type_hint'', JStr ''refresh_token'')])\<rparr>"

definition revoke_grant ::
  "config \<Rightarrow> oauth2_session \<Rightarrow> world \<Rightarrow> (error + bool) \<times> world" where
  "revoke_grant cfg oauth w =
     (case read_file (TOKEN_FILE cfg) w of
        Inl e \<Rightarrow> (Inl e, w)
      | Inr tok \<Rightarrow>
          (case subscript tok ''refresh_token'' of
             Inl e \<Rightarrow> (Inl e, w)
           | Inr refresh_token \<Rightarrow>
               (case oauth_request cfg oauth (revoke_request cfg refresh_token) w of
                  (Inl e, w1) \<Rightarrow> (Inl e, w1)
                | (Inr resp, w1) \<Rightarrow>
                    if status_code resp = 200 then (Inr True, del_file (TOKEN_FILE cfg) w1)
                    else (Inr False, w1))))"

subsection \<open>Deep merge, as the specification words it\<close>

text \<open>
  The specification's merge law speaks of the deep merge of two mappings with the second
  taking precedence: where both hold a mapping under one key the two are merged in turn,
  and everywhere else the second value wins. The script does not compute it; it is
  defined here to be compared with what two writes leave in a file.
\<close>

lemma fmmap_keys_cong_lookup [fundef_cong]:
  "m = n \<Longrightarrow> (\<And>k v. fmlookup n k = Some v \<Longrightarrow> f k v = g k v) \<Longrightarrow>
   fmmap_keys f m = fmmap_keys g n"
  by (rule fmap_ext) (auto simp: map_option_case split: option.splits)

lemma size_fmlookup:
  assumes "fmlookup m k = Some v"
  shows "g v < size_fmap f g m"
proof -
  have mem: "(k, v) \<in> fset (fset_of_fmap m)"
    using assms by (simp add: fmlookup_dom_iff)
  have "(\<lambda>(a, b). Suc (f a + g b)) (k, v)
          \<le> (\<Sum>x\<in>fset (fset_of_fmap m). (\<lambda>(a, b). Suc (f a + g b)) x)"
    by (rule member_le_sum [OF mem]) simp_all
  then show ?thesis
    by (simp add: case_prod_unfold)
qed

function (sequential) deep_merge :: "json \<Rightarrow> json \<Rightarrow> json" where
  "deep_merge (JObj a) (JObj b) =
     JObj (a ++\<^sub>f fmmap_keys (\<lambda>k v. case fmlookup a k of
                                     Some u \<Rightarrow> deep_merge u v
                                   | None \<Rightarrow> v) b)"
| "deep_merge old new = new"
  by pat_completeness auto
termination
  by (relation "measure (\<lambda>(old, new). size new)")
     (auto dest: size_fmlookup [where f = "\<lambda>_. 0" and g = size])

subsection \<open>Scenario data\<close>

text \<open>
  The values of the specification's scenarios: a configuration, the token a code exchange
  returns (with the expiry the session derives), a token as stored before a refresh, what
  a refresh returns, user-info claims, and sessions that answer every call alike and
  accept every string, list or dict as their token.
\<close>

definition scenario_config :: config where
  "scenario_config =
     \<lparr>CLIENT_ID = ''client'', CLIENT_SECRET = ''secret'',
      REDIRECT_URI = ''https://localhost/callback'',
      TOKEN_FILE = ''token.json'', INFO_FILE = ''info.json''\<rparr>"

definition issued_token :: obj where
  "issued_token = fmap_of_list
     [(''access_token'', JStr ''A''), (''refresh_token'', JStr ''R''),
      (''expires_in'', JNum 3600), (''token_type'', JStr ''bearer''),
      (''expires_at'', JNum 1700003600)]"

definition stored_token :: obj where
  "stored_token = fmap_of_list
     [(''access_token'', JStr ''Old''), (''refresh_token'', JStr ''R''),
      (''scope'', JStr ''openid email profile'')]"

definition refreshed_token :: obj where
  "refreshed_token = fmap_of_list
     [(''access_token'', JStr ''New''), (''expires_in'', JNum 3600)]"

definition claims :: obj where
  "claims = fmap_of_list [(''sub'', JStr ''123''), (''email'', JStr ''x@y.com'')]"

definition answer :: "int \<Rightarrow> obj \<Rightarrow> response" where
  "answer status body = \<lparr>status_code = status, json_body = Inr body\<rparr>"

definition session_of :: "error + obj \<Rightarrow> request_result \<Rightarrow> oauth2_session" where
  "session_of fetched result =
     \<lparr>fetch_token = (\<lambda>token_url code secret. fetched),
      request = (\<lambda>args. result),
      token_setter = (\<lambda>v. None)\<rparr>"

definition store_with_token :: "obj \<Rightarrow> world" where
  "store_with_token tok = \<lparr>files = [''token.json'' \<mapsto> Parsed (JObj tok)], trace = []\<rparr>"

section \<open>The persistent store\<close>

subsection \<open>Reading\<close>

lemma read_file_cases:
  "read_file file_name w =
     (case files w file_name of
        None \<Rightarrow> Inr JNull
      | Some Unreadable \<Rightarrow> Inl PermissionError
      | Some Undecodable \<Rightarrow> Inl UnicodeDecodeError
      | Some Overnested \<Rightarrow> Inl RecursionError
      | Some Malformed \<Rightarrow> Inr JNull
      | Some (Parsed v) \<Rightarrow> Inr v)"
  by (simp add: read_file_def json_load_def split: option.splits content.splits)

lemma existing_data_cases:
  "existing_data file_name w =
     (case files w file_name of
        None \<Rightarrow> Inr (JObj fmempty)
      | Some Unreadable \<Rightarrow> Inl PermissionError
      | Some Undecodable \<Rightarrow> Inl UnicodeDecodeError
      | Some Overnested \<Rightarrow> Inl RecursionError
      | Some Malformed \<Rightarrow> Inr (JObj fmempty)
      | Some (Parsed v) \<Rightarrow> Inr (py_or v (JObj fmempty)))"
  by (simp add: existing_data_def read_file_cases py_or_def
           split: option.splits content.splits)

text \<open>
  Where the \<^verbatim>\<open>except\<close> clause applies, \<^verbatim>\<open>__read_file__\<close> returns \<^verbatim>\<open>None\<close>: the file does
  not exist, or the parser rejects its text with \<^verbatim>\<open>JSONDecodeError\<close>.
\<close>

lemma read_file_caught:
  "files w file_name = None \<or> files w file_name = Some Malformed \<Longrightarrow>
   read_file file_name w = Inr JNull"
  by (auto simp: read_file_cases)

text \<open>
  Claim C7 says that \<^verbatim>\<open>__read_file__\<close> returns \<^verbatim>\<open>None\<close>, and never raises, when the file
  does not exist and when its content is not valid JSON; the docstring of the function
  says the same (\<^verbatim>\<open>None\<close> if the file cannot be parsed as JSON). The function falls short
  of it: the \<^verbatim>\<open>except\<close> clause names \<^verbatim>\<open>FileNotFoundError\<close> and \<^verbatim>\<open>JSONDecodeError\<close> only,
  so a token file whose bytes are not UTF-8 (not valid JSON) makes it raise
  \<^verbatim>\<open>UnicodeDecodeError\<close>, and one that only opens brackets, beyond the recursion limit,
  makes it raise \<^verbatim>\<open>RecursionError\<close>.
\<close>

theorem read_file_raises_on_undecodable:
  "read_file ''token.json'' \<lparr>files = [''token.json'' \<mapsto> Undecodable], trace = []\<rparr>
     = Inl UnicodeDecodeError \<and>
   read_file ''token.json'' \<lparr>files = [''token.json'' \<mapsto> Overnested], trace = []\<rparr>
     = Inl RecursionError"
  by (simp add: read_file_def json_load_def)

subsection \<open>Deleting\<close>

lemma del_file_cases:
  "del_file file_name w =
     (case files w file_name of
        None \<Rightarrow> w
      | Some c \<Rightarrow> \<lparr>files = (files w)(file_name := None), trace = trace w @ [Remove file_name]\<rparr>)"
  by (simp add: del_file_def os_remove_def split: option.splits)

lemma files_del_file: "files (del_file file_name w) = (files w)(file_name := None)"
  by (auto simp: del_file_cases split: option.splits)

text \<open>
  Claim C8. \<^verbatim>\<open>__del_file__\<close> of a file that does not exist changes nothing, although
  \<^verbatim>\<open>os.remove\<close> raises there; after any delete the file is absent, a second delete
  changes nothing more, and a read returns \<^verbatim>\<open>None\<close>.
\<close>

theorem del_file_idempotent:
  "(files w file_name = None \<longrightarrow>
      os_remove file_name w = Inl FileNotFoundError \<and> del_file file_name w = w) \<and>
   files (del_file file_name w) file_name = None \<and>
   del_file file_name (del_file file_name w) = del_file file_name w \<and>
   read_file file_name (del_file file_name w) = Inr JNull"
  by (simp add: del_file_cases os_remove_def read_file_cases split: option.splits)

theorem del_file_idempotent_witness:
  "os_remove ''token.json'' empty_store = Inl FileNotFoundError \<and>
   del_file ''token.json'' empty_store = empty_store \<and>
   del_file ''token.json'' (del_file ''token.json'' empty_store) = empty_store"
  using del_file_idempotent [of empty_store "''token.json''"]
  by (simp add: empty_store_def)

subsection \<open>Writing\<close>

lemma write_file_cases:
  "write_file d file_name w =
     (case existing_data file_name w of
        Inl e \<Rightarrow> Inl e
      | Inr (JObj existing) \<Rightarrow>
          Inr \<lparr>files = (files w)(file_name \<mapsto> Parsed (JObj (existing ++\<^sub>f d))),
               trace = trace w @ [Dump file_name (JObj (existing ++\<^sub>f d))]\<rparr>
      | Inr other \<Rightarrow> Inl AttributeError)"
  by (simp add: write_file_def split: sum.splits json.splits)

lemma write_file_existing:
  "existing_data file_name w = Inr (JObj existing) \<Longrightarrow>
   write_file d file_name w =
     Inr \<lparr>files = (files w)(file_name \<mapsto> Parsed (JObj (existing ++\<^sub>f d))),
          trace = trace w @ [Dump file_name (JObj (existing ++\<^sub>f d))]\<rparr>"
  by (simp add: write_file_cases)

lemma write_file_raises:
  "existing_data file_name w = Inl e \<Longrightarrow> write_file d file_name w = Inl e"
  by (simp add: write_file_cases)

lemma existing_data_absent:
  "files w file_name = None \<Longrightarrow> existing_data file_name w = Inr (JObj fmempty)"
  by (simp add: existing_data_cases)

lemma existing_data_malformed:
  "files w file_name = Some Malformed \<Longrightarrow> existing_data file_name w = Inr (JObj fmempty)"
  by (simp add: existing_data_cases)

lemma existing_data_object:
  "files w file_name = Some (Parsed (JObj m)) \<Longrightarrow> existing_data file_name w = Inr (JObj m)"
  by (simp add: existing_data_cases py_or_def)

text \<open>
  Over a file whose text the parser rejects with \<^verbatim>\<open>JSONDecodeError\<close>, \<^verbatim>\<open>__write_file__\<close>
  succeeds and leaves exactly the data written, as it does when the file does not exist.
\<close>

lemma write_file_after_decode_error:
  "files w file_name = Some Malformed \<Longrightarrow>
     write_file d file_name w =
       Inr \<lparr>files = (files w)(file_name \<mapsto> Parsed (JObj d)),
            trace = trace w @ [Dump file_name (JObj d)]\<rparr> \<and>
     write_file d file_name w = write_file d file_name (w\<lparr>files := (files w)(file_name := None)\<rparr>)"
  by (simp add: write_file_cases existing_data_cases)

text \<open>
  Claim C9 says that over every file whose content is malformed JSON \<^verbatim>\<open>__write_file__\<close>
  succeeds and leaves exactly the data written, the corrupt content being dropped as if
  the file were absent. The function falls short of it, by the same gap in the \<^verbatim>\<open>except\<close>
  clause of \<^verbatim>\<open>__read_file__\<close> as in claim C7: over a token file whose bytes are not UTF-8
  the read inside the write raises \<^verbatim>\<open>UnicodeDecodeError\<close>, the write fails with it, and
  the file is not written.
\<close>

theorem write_file_raises_on_undecodable:
  "write_file (fmap_of_list [(''access_token'', JStr ''A'')]) ''token.json''
     \<lparr>files = [''token.json'' \<mapsto> Undecodable], trace = []\<rparr>
   = Inl UnicodeDecodeError"
  by (simp add: write_file_def existing_data_def read_file_def json_load_def)

subsection \<open>Two writes\<close>

lemma deep_merge_nested_example:
  "deep_merge
     (JObj (fmap_of_list [(''a'', JObj (fmap_of_list [(''x'', JNum 1)]))]))
     (JObj (fmap_of_list [(''a'', JObj (fmap_of_list [(''y'', JNum 2)]))])) =
   JObj (fmap_of_list [(''a'', JObj (fmap_of_list [(''x'', JNum 1), (''y'', JNum 2)]))])"
  by (simp, rule fmap_ext, auto, rule fmap_ext, auto)

text \<open>
  Claim C1, as stated, fails. Writing \<^verbatim>\<open>{"a": {"x": 1}}\<close> and then \<^verbatim>\<open>{"a": {"y": 2}}\<close>
  to an empty store leaves \<^verbatim>\<open>{"a": {"y": 2}}\<close>: \<^verbatim>\<open>dict.update\<close> replaces the value under
  \<^verbatim>\<open>"a"\<close> whole, where the deep merge keeps \<^verbatim>\<open>"x"\<close> beside \<^verbatim>\<open>"y"\<close>.
\<close>

theorem write_write_deep_merge_counterexample:
  "and_then
     (and_then
        (write_file (fmap_of_list [(''a'', JObj (fmap_of_list [(''x'', JNum 1)]))])
           ''info.json'' empty_store)
        (write_file (fmap_of_list [(''a'', JObj (fmap_of_list [(''y'', JNum 2)]))]) ''info.json''))
     (read_file ''info.json'')
   \<noteq> Inr (deep_merge
            (JObj (fmap_of_list [(''a'', JObj (fmap_of_list [(''x'', JNum 1)]))]))
            (JObj (fmap_of_list [(''a'', JObj (fmap_of_list [(''y'', JNum 2)]))])))"
proof
  let ?d1 = "fmap_of_list [(''a'', JObj (fmap_of_list [(''x'', JNum 1)]))]"
  let ?d2 = "fmap_of_list [(''a'', JObj (fmap_of_list [(''y'', JNum 2)]))]"
  let ?F = "\<lambda>a k v. case fmlookup a k of Some u \<Rightarrow> deep_merge u v | None \<Rightarrow> v"
  assume eq: "and_then (and_then (write_file ?d1 ''info.json'' empty_store)
                (write_file ?d2 ''info.json'')) (read_file ''info.json'')
              = Inr (deep_merge (JObj ?d1) (JObj ?d2))"
  have stored: "and_then (and_then (write_file ?d1 ''info.json'' empty_store)
                  (write_file ?d2 ''info.json'')) (read_file ''info.json'')
                = Inr (JObj (?d1 ++\<^sub>f ?d2))"
    by (simp add: and_then_def write_file_cases existing_data_cases read_file_cases
          empty_store_def py_or_def)
  from eq stored have "?d1 ++\<^sub>f ?d2 = ?d1 ++\<^sub>f fmmap_keys (?F ?d1) ?d2"
    by simp
  then have "fmlookup (?d1 ++\<^sub>f ?d2) ''a'' = fmlookup (?d1 ++\<^sub>f fmmap_keys (?F ?d1) ?d2) ''a''"
    by (rule arg_cong)
  then have "fmap_of_list [(''y'', JNum 2)] =
             fmap_of_list [(''x'', JNum 1)] ++\<^sub>f
               fmmap_keys (?F (fmap_of_list [(''x'', JNum 1)])) (fmap_of_list [(''y'', JNum 2)])"
    by simp
  then have "fmlookup (fmap_of_list [(''y'', JNum 2)]) ''x'' =
             fmlookup (fmap_of_list [(''x'', JNum 1)] ++\<^sub>f
               fmmap_keys (?F (fmap_of_list [(''x'', JNum 1)])) (fmap_of_list [(''y'', JNum 2)])) ''x''"
    by (rule arg_cong)
  then show False
    by simp
qed

text \<open>
  Claim C1, amended. Two writes to an empty store leave the shallow merge of the two
  mappings: under each key the value of the second mapping when it has the key, and
  otherwise the value of the first; the keys are those of the two mappings and no others.
\<close>

theorem write_write_shallow_merge:
  "and_then (and_then (write_file d1 file_name empty_store) (write_file d2 file_name))
     (read_file file_name) = Inr (JObj (d1 ++\<^sub>f d2)) \<and>
   (\<forall>k. fmlookup (d1 ++\<^sub>f d2) k =
          (case fmlookup d2 k of Some v \<Rightarrow> Some v | None \<Rightarrow> fmlookup d1 k)) \<and>
   fmdom (d1 ++\<^sub>f d2) = fmdom d1 |\<union>| fmdom d2"
  by (auto simp: and_then_def write_file_cases existing_data_cases read_file_cases
        empty_store_def py_or_def fmlookup_dom_iff split: option.splits)


section \<open>The token lifecycle\<close>

lemmas scenario_defs = scenario_config_def session_of_def store_with_token_def answer_def


lemma refresh_access_token_existing:
  "existing_data (TOKEN_FILE cfg) w = Inr (JObj old) \<Longrightarrow>
   refresh_access_token cfg new_token w =
     Inr (new_token,
          \<lparr>files = (files w)(TOKEN_FILE cfg \<mapsto> Parsed (JObj (old ++\<^sub>f new_token))),
           trace = trace w @ [Dump (TOKEN_FILE cfg) (JObj (old ++\<^sub>f new_token))]\<rparr>)"
  by (simp add: refresh_access_token_def write_file_existing)


subsection \<open>Code exchange\<close>

text \<open>
  Claim C10. When \<^verbatim>\<open>fetch_token\<close> raises, \<^verbatim>\<open>exchange_authorization_code\<close> raises the same
  exception and the files are as they were: nothing has been written, since the write
  follows the call that failed.
\<close>

theorem exchange_failure_leaves_store:
  "fetch_token oauth (urljoin API_BASE_URL ''/oauth2/get_token'') code (CLIENT_SECRET cfg) = Inl e \<Longrightarrow>
   exchange_authorization_code cfg oauth code w = (Inl e, w)"
  by (simp add: exchange_authorization_code_def)

theorem exchange_failure_leaves_store_witness:
  "exchange_authorization_code scenario_config
     (session_of (Inl (Other ''InvalidGrantError'')) (Raises (Other ''ConnectionError'')))
     ''spent-code'' (store_with_token stored_token) =
   (Inl (Other ''InvalidGrantError''), store_with_token stored_token)"
  using exchange_failure_leaves_store
    [of "session_of (Inl (Other ''InvalidGrantError'')) (Raises (Other ''ConnectionError''))"
        "''spent-code''" scenario_config "Other ''InvalidGrantError''"
        "store_with_token stored_token"]
  by (simp add: session_of_def)



subsection \<open>Refresh\<close>

text \<open>
  Claim C2. \<^verbatim>\<open>__refresh_access_token__\<close>, which the session calls once with the new token
  when it has refreshed, returns the new token and makes exactly one write, to the token
  file: the merge of the stored record with the new token. A stored key that the new
  token lacks keeps its value, and a key of the new token takes the new value. A request
  during which the session refreshes leaves the files in just that state.
\<close>

theorem refresh_persists_by_merge:
  assumes "existing_data (TOKEN_FILE cfg) w = Inr (JObj old)"
  shows "\<exists>w'. refresh_access_token cfg new_token w = Inr (new_token, w') \<and>
              files w' = (files w)(TOKEN_FILE cfg \<mapsto> Parsed (JObj (old ++\<^sub>f new_token))) \<and>
              trace w' = trace w @ [Dump (TOKEN_FILE cfg) (JObj (old ++\<^sub>f new_token))] \<and>
              read_file (TOKEN_FILE cfg) w' = Inr (JObj (old ++\<^sub>f new_token)) \<and>
              (\<forall>k v. fmlookup old k = Some v \<and> fmlookup new_token k = None \<longrightarrow>
                     fmlookup (old ++\<^sub>f new_token) k = Some v) \<and>
              (\<forall>k v. fmlookup new_token k = Some v \<longrightarrow> fmlookup (old ++\<^sub>f new_token) k = Some v) \<and>
              (\<forall>args outcome. request oauth args = Refreshes new_token outcome \<longrightarrow>
                     oauth_request cfg oauth args w = (outcome, w'))"
  using assms
  by (auto simp: refresh_access_token_existing oauth_request_def read_file_cases fmlookup_dom_iff)

theorem refresh_persists_by_merge_witness:
  "fst (oauth_request scenario_config
          (session_of (Inl (Other ''unused'')) (Refreshes refreshed_token (Inr (answer 200 claims))))
          (userinfo_request scenario_config (JObj stored_token))
          (store_with_token stored_token)) = Inr (answer 200 claims) \<and>
   trace (snd (oauth_request scenario_config
          (session_of (Inl (Other ''unused'')) (Refreshes refreshed_token (Inr (answer 200 claims))))
          (userinfo_request scenario_config (JObj stored_token))
          (store_with_token stored_token))) =
     [Dump ''token.json'' (JObj (stored_token ++\<^sub>f refreshed_token))] \<and>
   fmlookup (stored_token ++\<^sub>f refreshed_token) ''scope'' = Some (JStr ''openid email profile'') \<and>
   fmlookup (stored_token ++\<^sub>f refreshed_token) ''access_token'' = Some (JStr ''New'')"
proof -
  let ?s = "session_of (Inl (Other ''unused'')) (Refreshes refreshed_token (Inr (answer 200 claims)))"
  have existing: "existing_data (TOKEN_FILE scenario_config) (store_with_token stored_token)
                    = Inr (JObj stored_token)"
    by (simp add: existing_data_cases scenario_defs py_or_def stored_token_def)
  have refreshes: "request ?s (userinfo_request scenario_config (JObj stored_token))
                     = Refreshes refreshed_token (Inr (answer 200 claims))"
    by (simp add: session_of_def)
  have scope: "fmlookup stored_token ''scope'' = Some (JStr ''openid email profile'') \<and>
               fmlookup refreshed_token ''scope'' = None"
    by (simp add: stored_token_def refreshed_token_def)
  have access: "fmlookup refreshed_token ''access_token'' = Some (JStr ''New'')"
    by (simp add: refreshed_token_def)
  from refresh_persists_by_merge [OF existing, of refreshed_token ?s] refreshes scope access
  show ?thesis
    by (auto simp: scenario_defs)
qed

subsection \<open>Revocation\<close>

lemma existing_data_record:
  "read_file file_name w = Inr (JObj tok) \<Longrightarrow> existing_data file_name w = Inr (JObj tok)"
  by (auto simp: existing_data_def py_or_def)

text \<open>
  Claim C3, as stated, fails. The revocation request goes through the same session as
  every other request, and a session that finds its token expired refreshes it on the way
  and has \<^verbatim>\<open>__refresh_access_token__\<close> write the new token. When the provider then answers
  404, \<^verbatim>\<open>revoke_grant\<close> returns \<^verbatim>\<open>False\<close> over a token file that is no longer what it was:
  it holds the stored record merged with the refreshed token.
\<close>

theorem revoke_grant_refresh_counterexample:
  "fst (revoke_grant scenario_config
          (session_of (Inl (Other ''unused''))
             (Refreshes refreshed_token (Inr (answer 404 fmempty))))
          (store_with_token stored_token)) = Inr False \<and>
   files (snd (revoke_grant scenario_config
          (session_of (Inl (Other ''unused''))
             (Refreshes refreshed_token (Inr (answer 404 fmempty))))
          (store_with_token stored_token))) ''token.json''
     = Some (Parsed (JObj (stored_token ++\<^sub>f refreshed_token))) \<and>
   files (snd (revoke_grant scenario_config
          (session_of (Inl (Other ''unused''))
             (Refreshes refreshed_token (Inr (answer 404 fmempty))))
          (store_with_token stored_token))) ''token.json''
     \<noteq> files (store_with_token stored_token) ''token.json''"
proof -
  let ?s = "session_of (Inl (Other ''unused''))
              (Refreshes refreshed_token (Inr (answer 404 fmempty)))"
  let ?w = "store_with_token stored_token"
  have stored: "read_file ''token.json'' ?w = Inr (JObj stored_token)"
    by (simp add: read_file_cases store_with_token_def)
  have rt: "fmlookup stored_token ''refresh_token'' = Some (JStr ''R'')"
    by (simp add: stored_token_def)
  have existing: "existing_data ''token.json'' ?w = Inr (JObj stored_token)"
    using stored by (rule existing_data_record)
  have run: "revoke_grant scenario_config ?s ?w =
               (Inr False,
                \<lparr>files = (files ?w)(''token.json'' \<mapsto>
                            Parsed (JObj (stored_token ++\<^sub>f refreshed_token))),
                 trace = trace ?w @
                           [Dump ''token.json'' (JObj (stored_token ++\<^sub>f refreshed_token))]\<rparr>)"
    by (simp add: revoke_grant_def scenario_config_def stored rt oauth_request_def
          session_of_def refresh_access_token_def write_file_existing [OF existing]
          answer_def)
  have changed: "stored_token ++\<^sub>f refreshed_token \<noteq> stored_token"
  proof
    assume "stored_token ++\<^sub>f refreshed_token = stored_token"
    then have "fmlookup (stored_token ++\<^sub>f refreshed_token) ''access_token'' =
               fmlookup stored_token ''access_token''"
      by (rule arg_cong)
    then show False
      by (simp add: stored_token_def refreshed_token_def)
  qed
  show ?thesis
    using changed by (simp add: run) (simp add: store_with_token_def)
qed

text \<open>
  Claim C3, amended. With a stored token record that has a \<^verbatim>\<open>refresh_token\<close>, and the
  revocation request answered by the provider: on status 200 \<^verbatim>\<open>revoke_grant\<close> returns
  \<^verbatim>\<open>True\<close>, the token file is gone and reading it returns \<^verbatim>\<open>None\<close>; on any other status it
  returns \<^verbatim>\<open>False\<close> and does not delete the token file. The store is then wholly unchanged
  when the session did not refresh its token on the way; when it did, the token file
  holds the stored record merged with the refreshed token.
\<close>

theorem revoke_grant_outcome:
  assumes "read_file (TOKEN_FILE cfg) w = Inr (JObj tok)"
      and "fmlookup tok ''refresh_token'' = Some rt"
      and "oauth_request cfg oauth (revoke_request cfg rt) w = (Inr r, w1)"
  shows "(status_code r = 200 \<longrightarrow>
            fst (revoke_grant cfg oauth w) = Inr True \<and>
            files (snd (revoke_grant cfg oauth w)) (TOKEN_FILE cfg) = None \<and>
            read_file (TOKEN_FILE cfg) (snd (revoke_grant cfg oauth w)) = Inr JNull) \<and>
         (status_code r \<noteq> 200 \<longrightarrow>
            revoke_grant cfg oauth w = (Inr False, w1) \<and>
            files w1 (TOKEN_FILE cfg) \<noteq> None \<and>
            (request oauth (revoke_request cfg rt) = Responds r \<longrightarrow> w1 = w) \<and>
            (\<forall>new_token. request oauth (revoke_request cfg rt) = Refreshes new_token (Inr r) \<longrightarrow>
               files w1 = (files w)(TOKEN_FILE cfg \<mapsto> Parsed (JObj (tok ++\<^sub>f new_token)))))"
proof -
  have present: "files w (TOKEN_FILE cfg) \<noteq> None"
    using assms(1) by (auto simp: read_file_cases split: option.splits)
  have existing: "existing_data (TOKEN_FILE cfg) w = Inr (JObj tok)"
    using assms(1) by (rule existing_data_record)
  have kept: "files w1 (TOKEN_FILE cfg) \<noteq> None"
    using assms(3) present
    by (auto simp: oauth_request_def refresh_access_token_def write_file_existing [OF existing]
          split: request_result.splits)
  have same: "request oauth (revoke_request cfg rt) = Responds r \<longrightarrow> w1 = w"
    using assms(3) by (auto simp: oauth_request_def)
  have merged: "\<forall>new_token. request oauth (revoke_request cfg rt) = Refreshes new_token (Inr r) \<longrightarrow>
                  files w1 = (files w)(TOKEN_FILE cfg \<mapsto> Parsed (JObj (tok ++\<^sub>f new_token)))"
    using assms(3)
    by (auto simp: oauth_request_def refresh_access_token_def write_file_existing [OF existing])
  show ?thesis
    using assms kept same merged
    by (simp add: revoke_grant_def files_del_file read_file_cases)
qed

theorem revoke_grant_outcome_witness:
  "fst (revoke_grant scenario_config
          (session_of (Inl (Other ''unused'')) (Responds (answer 200 fmempty)))
          (store_with_token issued_token)) = Inr True \<and>
   read_file ''token.json''
     (snd (revoke_grant scenario_config
             (session_of (Inl (Other ''unused'')) (Responds (answer 200 fmempty)))
             (store_with_token issued_token))) = Inr JNull \<and>
   revoke_grant scenario_config
     (session_of (Inl (Other ''unused'')) (Responds (answer 404 fmempty)))
     (store_with_token issued_token) =
   (Inr False, store_with_token issued_token)"
proof -
  let ?w = "store_with_token issued_token"
  let ?revoked = "session_of (Inl (Other ''unused'')) (Responds (answer 200 fmempty))"
  let ?refused = "session_of (Inl (Other ''unused'')) (Responds (answer 404 fmempty))"
  have stored: "read_file (TOKEN_FILE scenario_config) ?w = Inr (JObj issued_token)"
    by (simp add: read_file_cases scenario_defs)
  have rt: "fmlookup issued_token ''refresh_token'' = Some (JStr ''R'')"
    by (simp add: issued_token_def)
  have revoked: "oauth_request scenario_config ?revoked
                   (revoke_request scenario_config (JStr ''R'')) ?w
                 = (Inr (answer 200 fmempty), ?w)"
    by (simp add: oauth_request_def session_of_def)
  have refused: "oauth_request scenario_config ?refused
                   (revoke_request scenario_config (JStr ''R'')) ?w
                 = (Inr (answer 404 fmempty), ?w)"
    by (simp add: oauth_request_def session_of_def)
  from revoke_grant_outcome [OF stored rt revoked] revoke_grant_outcome [OF stored rt refused]
  show ?thesis
    by (simp add: answer_def scenario_config_def session_of_def)
qed

subsection \<open>User info\<close>



subsection \<open>No token\<close>




end
